theory Spec2Isabelle
  imports Complex_Main
begin

section \<open>Rotor aerodynamics: the helper functions of aerodyn.py\<close>

text \<open>
  The module is Python 2 (it ends in a \<^verbatim>\<open>print\<close> statement), written against numpy. Its
  function bodies refer to that library by the qualified names \<^verbatim>\<open>numpy.cos\<close>, \<^verbatim>\<open>numpy.sin\<close>,
  \<^verbatim>\<open>numpy.tan\<close>, \<^verbatim>\<open>numpy.exp\<close>, \<^verbatim>\<open>numpy.sqrt\<close>, \<^verbatim>\<open>numpy.arctan\<close> and \<^verbatim>\<open>numpy.pi\<close>, while its
  import statements bind the names \<^verbatim>\<open>arctan\<close>, \<^verbatim>\<open>sin\<close> and \<^verbatim>\<open>pi\<close> only.

  The model has two layers. The definitions \<open>q_terms\<close>, \<open>calc_attack_angle\<close>,
  \<open>calc_axial_factor\<close>, \<open>calc_angular_factor\<close>, \<open>tip_loss\<close>, \<open>rotor_coefs\<close> and those of the linear
  analysis give what the function bodies compute once the name \<^verbatim>\<open>numpy\<close> is bound to the
  library. The definitions \<open>q_terms_py\<close>, \<open>tip_loss_py\<close> and \<open>linear_rotor_analysis_py\<close> are the
  calls as Python runs them in a module with given global names: they look the name up
  first, and in the module as it is loaded (\<open>module_globals\<close>) that raises \<^verbatim>\<open>NameError\<close>.

  In the first layer floating-point numbers are idealised as real numbers: the functions are
  those of analysis and no rounding takes place. A quotient of numpy floats whose divisor is
  zero and a square root of a negative number have no counterpart in this idealisation
  (numpy yields an infinity or a nan there, and raises nothing), and where rounding decides a
  comparison (an exponential that underflows to zero, or rounds to one) the idealisation may
  take the other branch. \<open>q_terms_py\<close> works on floats with their special values instead.
  Counts (\<^verbatim>\<open>number_of_blades\<close>, \<^verbatim>\<open>len(rct_matrix)\<close>) are integers, and \<^verbatim>\<open>/\<close> between two of
  them is Python 2's floor division. A quotient of Python's own numbers raises
  \<^verbatim>\<open>ZeroDivisionError\<close> where the divisor is zero.
\<close>

datatype py_error = ZeroDivisionError | NameError

definition q_terms :: "real \<Rightarrow> real \<Rightarrow> real \<Rightarrow> real \<Rightarrow> real \<Rightarrow> real \<times> real \<times> real" where
  "q_terms local_pitch local_tsr lift_coef_slope lift_coef_intercept local_solidity =
     (let d1 = cos local_pitch - local_tsr * sin local_pitch;
          d2 = sin local_pitch + local_tsr * cos local_pitch;
          q1 = (d1 * lift_coef_slope) + ((4 * local_tsr / local_solidity) *
                                           cos local_pitch * d2);
          q2 = d2 * lift_coef_slope + (d1 * lift_coef_intercept -
                                       (4 * local_tsr / local_solidity) *
                                       (d1 * cos local_pitch - d2 *
                                        sin local_pitch));
          q3 = d2 * lift_coef_intercept - ((4 * local_tsr / local_solidity) *
                                           d1 * sin local_pitch)
      in (q1, q2, q3))"

definition calc_attack_angle :: "real \<Rightarrow> real \<Rightarrow> real \<Rightarrow> real" where
  "calc_attack_angle q1 q2 q3 = - (sqrt (q2 ^ 2 - 4 * q1 * q3) - q2) / (2 * q1)"

definition calc_axial_factor :: "real \<Rightarrow> real \<Rightarrow> real \<Rightarrow> real \<Rightarrow> real" where
  "calc_axial_factor local_tip_loss lift_coefficient angle_of_rwind local_solidity =
     1 / (1 + (4 * local_tip_loss * (sin angle_of_rwind ^ 2) /
               (local_solidity * lift_coefficient *
                cos angle_of_rwind)))"

definition calc_angular_factor :: "real \<Rightarrow> real \<Rightarrow> real \<Rightarrow> real" where
  "calc_angular_factor axial_induc_factor angle_of_rwind local_tsr =
     axial_induc_factor * tan angle_of_rwind / local_tsr"

text \<open>
  \<^verbatim>\<open>number_of_blades\<close> is an int, so \<^verbatim>\<open>number_of_blades / 2\<close> is \<open>div\<close>. The division by
  \<^verbatim>\<open>numpy.pi/2\<close> stands inside the argument of \<^verbatim>\<open>numpy.arctan\<close>, as the source's
  parentheses put it. The \<^verbatim>\<open>return 0\<close> after the conditional is never reached.
\<close>

definition tip_loss :: "int \<Rightarrow> real \<Rightarrow> real \<Rightarrow> real" where
  "tip_loss number_of_blades fractional_radius angle_of_rwind =
     (let tmp = exp (- real_of_int (number_of_blades div 2) * (1 - fractional_radius) /
                     (fractional_radius * sin angle_of_rwind))
      in if tmp > 0 \<and> (1 - tmp ^ 2) > 0
         then arctan ((sqrt (1 - tmp ^ 2) / tmp) / (pi / 2))
         else 1)"

text \<open>
  As \<^verbatim>\<open>linear_rotor_analysis\<close> calls it: \<^verbatim>\<open>tip_speed_ratio\<close> is the caller's own argument, a
  Python float, and \<^verbatim>\<open>num_stations\<close> a Python int, so \<^verbatim>\<open>8 / (tip_speed_ratio * num_stations)\<close>
  is Python's division and raises for a zero divisor. Every other quotient has a numpy float
  in it (the remaining arguments are computed from entries of the array \<^verbatim>\<open>rct_matrix\<close>).
\<close>

definition rotor_coefs ::
  "real \<Rightarrow> real \<Rightarrow> real \<Rightarrow> real \<Rightarrow> real \<Rightarrow> nat \<Rightarrow> real \<Rightarrow> real \<Rightarrow> real \<Rightarrow> real
     \<Rightarrow> py_error + real \<times> real \<times> real" where
  "rotor_coefs axial_induc_factor angular_induc_factor angle_of_rwind
               tip_speed_ratio local_tsr num_stations local_solidity
               lift_coefficient drag_coefficient local_tip_loss =
     (let local_thrust_coef = ((local_solidity * (1 - axial_induc_factor) ^ 2 *
                                (lift_coefficient * cos angle_of_rwind +
                                 drag_coefficient * sin angle_of_rwind)) /
                               (sin angle_of_rwind ^ 2))
      in if tip_speed_ratio * real num_stations = 0 then Inl ZeroDivisionError
         else
           (let local_power_coef = ((8 / (tip_speed_ratio * real num_stations)) *
                                    local_tip_loss *
                                    sin angle_of_rwind ^ 2 *
                                    (cos angle_of_rwind - local_tsr *
                                     sin angle_of_rwind) *
                                    (sin angle_of_rwind + local_tsr *
                                     cos angle_of_rwind) *
                                    (1 - (drag_coefficient / lift_coefficient) *
                                     (1 / tan angle_of_rwind)) * local_tsr ^ 2);
                local_torque_coef = local_power_coef / local_tsr
            in Inr (local_thrust_coef, local_torque_coef, local_power_coef)))"

subsection \<open>The q-terms on floats with their special values\<close>

text \<open>
  The values of a numpy float with the finite ones kept exact: a finite number, the two
  infinities and nan. The arithmetic follows IEEE 754 on the special values (a nonzero
  number over zero is an infinity, zero over zero and zero times an infinity are nan, nan
  absorbs everything) and raises nothing; the zero is the positive one, so for a divisor
  \<^verbatim>\<open>-0.0\<close> the infinities change sign.
\<close>

datatype np_float = Finite real | PInf | NInf | NaN

instantiation np_float :: "{uminus, plus, times, inverse}"
begin

fun uminus_np_float :: "np_float \<Rightarrow> np_float" where
  "uminus_np_float (Finite x) = Finite (- x)"
| "uminus_np_float PInf = NInf"
| "uminus_np_float NInf = PInf"
| "uminus_np_float NaN = NaN"

fun plus_np_float :: "np_float \<Rightarrow> np_float \<Rightarrow> np_float" where
  "plus_np_float (Finite x) (Finite y) = Finite (x + y)"
| "plus_np_float NaN b = NaN"
| "plus_np_float a NaN = NaN"
| "plus_np_float PInf NInf = NaN"
| "plus_np_float NInf PInf = NaN"
| "plus_np_float PInf b = PInf"
| "plus_np_float NInf b = NInf"
| "plus_np_float a PInf = PInf"
| "plus_np_float a NInf = NInf"

fun times_np_float :: "np_float \<Rightarrow> np_float \<Rightarrow> np_float" where
  "times_np_float (Finite x) (Finite y) = Finite (x * y)"
| "times_np_float NaN b = NaN"
| "times_np_float a NaN = NaN"
| "times_np_float (Finite x) PInf = (if x = 0 then NaN else if 0 < x then PInf else NInf)"
| "times_np_float (Finite x) NInf = (if x = 0 then NaN else if 0 < x then NInf else PInf)"
| "times_np_float PInf (Finite y) = (if y = 0 then NaN else if 0 < y then PInf else NInf)"
| "times_np_float NInf (Finite y) = (if y = 0 then NaN else if 0 < y then NInf else PInf)"
| "times_np_float PInf PInf = PInf"
| "times_np_float PInf NInf = NInf"
| "times_np_float NInf PInf = NInf"
| "times_np_float NInf NInf = PInf"

fun divide_np_float :: "np_float \<Rightarrow> np_float \<Rightarrow> np_float" where
  "divide_np_float (Finite x) (Finite y) =
     (if y = 0 then (if x = 0 then NaN else if 0 < x then PInf else NInf)
      else Finite (x / y))"
| "divide_np_float NaN b = NaN"
| "divide_np_float a NaN = NaN"
| "divide_np_float (Finite x) b = Finite 0"
| "divide_np_float PInf (Finite y) = (if 0 \<le> y then PInf else NInf)"
| "divide_np_float NInf (Finite y) = (if 0 \<le> y then NInf else PInf)"
| "divide_np_float a b = NaN"

fun inverse_np_float :: "np_float \<Rightarrow> np_float" where
  "inverse_np_float (Finite x) = (if x = 0 then PInf else Finite (1 / x))"
| "inverse_np_float NaN = NaN"
| "inverse_np_float a = Finite 0"

instance ..

end

instantiation np_float :: minus
begin

definition minus_np_float :: "np_float \<Rightarrow> np_float \<Rightarrow> np_float" where
  "minus_np_float a b = a + (- b)"

instance ..

end

fun np_cos :: "np_float \<Rightarrow> np_float" where
  "np_cos (Finite x) = Finite (cos x)"
| "np_cos a = NaN"

fun np_sin :: "np_float \<Rightarrow> np_float" where
  "np_sin (Finite x) = Finite (sin x)"
| "np_sin a = NaN"

fun finite_float :: "np_float \<Rightarrow> bool" where
  "finite_float (Finite x) = True"
| "finite_float a = False"

text \<open>
  A float that a caller passes is one of Python's own or a numpy float; both hold such a
  value. An operation between two Python floats is Python's, and Python's division raises for
  a zero divisor; an operation with a numpy float in it is numpy's, and so is its result.
\<close>

datatype py_float = Py np_float | Np np_float

fun float_value :: "py_float \<Rightarrow> np_float" where
  "float_value (Py x) = x"
| "float_value (Np x) = x"

fun is_python :: "py_float \<Rightarrow> bool" where
  "is_python (Py x) = True"
| "is_python (Np x) = False"

instantiation py_float :: "{plus, minus, times}"
begin

fun plus_py_float :: "py_float \<Rightarrow> py_float \<Rightarrow> py_float" where
  "plus_py_float (Py x) (Py y) = Py (x + y)"
| "plus_py_float a b = Np (float_value a + float_value b)"

fun minus_py_float :: "py_float \<Rightarrow> py_float \<Rightarrow> py_float" where
  "minus_py_float (Py x) (Py y) = Py (x - y)"
| "minus_py_float a b = Np (float_value a - float_value b)"

fun times_py_float :: "py_float \<Rightarrow> py_float \<Rightarrow> py_float" where
  "times_py_float (Py x) (Py y) = Py (x * y)"
| "times_py_float a b = Np (float_value a * float_value b)"

instance ..

end

fun py_div :: "py_float \<Rightarrow> py_float \<Rightarrow> py_error + py_float" where
  "py_div (Py x) (Py y) = (if y = Finite 0 then Inl ZeroDivisionError else Inr (Py (x / y)))"
| "py_div a b = Inr (Np (float_value a / float_value b))"

text \<open>\<^verbatim>\<open>numpy.cos\<close> and \<^verbatim>\<open>numpy.sin\<close> return a numpy float for either kind of argument.\<close>

definition numpy_cos :: "py_float \<Rightarrow> py_float" where
  "numpy_cos a = Np (np_cos (float_value a))"

definition numpy_sin :: "py_float \<Rightarrow> py_float" where
  "numpy_sin a = Np (np_sin (float_value a))"

text \<open>
  The names that the module binds when it is loaded: those of its two import statements,
  \<^verbatim>\<open>from numpy import arctan, sin\<close> and \<^verbatim>\<open>from math import pi\<close>, and those of its functions.
  The name \<^verbatim>\<open>numpy\<close> is not among them, and a function body that reads a name which is not
  bound raises \<^verbatim>\<open>NameError\<close>.
\<close>

definition module_globals :: "string set" where
  "module_globals =
     {''arctan'', ''sin'', ''pi'', ''q_terms'', ''calc_attack_angle'', ''calc_axial_factor'',
      ''calc_angular_factor'', ''tip_loss'', ''rotor_coefs'', ''optimum_rotor'',
      ''linear_rotor_analysis'', ''nonlinear_rotor_analysis''}"

text \<open>
  \<^verbatim>\<open>q_terms\<close> as Python runs it in a module whose global names are \<open>globals\<close>, on floats of
  either kind. Its first step reads \<^verbatim>\<open>numpy\<close>. The literal 4 is a Python number. The quotient
  \<^verbatim>\<open>4 * local_tsr / local_solidity\<close> stands in each of the three assignments and is the only
  step that can raise after the first; it has the same operands each time, so it raises in
  the first assignment or in none.
\<close>

definition q_terms_py ::
  "string set \<Rightarrow> py_float \<Rightarrow> py_float \<Rightarrow> py_float \<Rightarrow> py_float \<Rightarrow> py_float
     \<Rightarrow> py_error + py_float \<times> py_float \<times> py_float" where
  "q_terms_py globals local_pitch local_tsr lift_coef_slope lift_coef_intercept
              local_solidity =
     (if ''numpy'' \<notin> globals then Inl NameError
      else
        (let d1 = numpy_cos local_pitch - local_tsr * numpy_sin local_pitch;
             d2 = numpy_sin local_pitch + local_tsr * numpy_cos local_pitch
         in case py_div (Py (Finite 4) * local_tsr) local_solidity of
              Inl e \<Rightarrow> Inl e
            | Inr k \<Rightarrow>
                (let q1 = (d1 * lift_coef_slope) + (k *
                                                   numpy_cos local_pitch * d2);
                     q2 = d2 * lift_coef_slope + (d1 * lift_coef_intercept -
                                                  k *
                                                  (d1 * numpy_cos local_pitch - d2 *
                                                   numpy_sin local_pitch));
                     q3 = d2 * lift_coef_intercept - (k *
                                                      d1 * numpy_sin local_pitch)
                 in Inr (q1, q2, q3))))"

section \<open>The main functions\<close>

subsection \<open>The geometry table and the non-linear stub\<close>

text \<open>A row of \<^verbatim>\<open>rct_matrix\<close>: fractional radius, chord and twist of one station. The
  docstring makes the table a numpy array, so its entries, and the values computed from
  them, are numpy floats.\<close>

record station =
  fradius :: real
  chord :: real
  twist :: real

text \<open>The values a dictionary of the module holds: the stub stores booleans where its
  documentation announces floats.\<close>

datatype py_value = PyBool bool | PyFloat real

definition nonlinear_rotor_analysis ::
  "station list \<Rightarrow> real \<Rightarrow> real \<Rightarrow> real \<Rightarrow> (string \<rightharpoonup> py_value)" where
  "nonlinear_rotor_analysis rct_matrix angle_of_attack lift_coefficient drag_coefficient =
     (let nonlinear_rotor_stats = map_of
        [(''total_radius'', PyBool False),
         (''tip_loss_factor'', PyBool False),
         (''angle_of_attack'', PyBool False),
         (''angle_of_rwind'', PyBool False),
         (''lift_coefficient'', PyBool False),
         (''drag_coefficient'', PyBool False),
         (''axial_induction_factor'', PyBool False),
         (''angular_induction_factor'', PyBool False),
         (''local_power_coefficient'', PyBool False)]
      in nonlinear_rotor_stats)"

subsection \<open>The linear analysis\<close>

text \<open>The arguments of \<^verbatim>\<open>linear_rotor_analysis\<close> other than the geometry table.\<close>

record rotor_config =
  tip_speed_ratio :: real
  number_blades :: int
  pitch_0 :: real
  blade_radius :: real
  hub_radius :: real
  lift_coef_slope :: real
  lift_coef_intercept :: real
  drag_coef_slope :: real
  drag_coef_intercept :: real

text \<open>
  The variables that the body of the \<^verbatim>\<open>while\<close> loop assigns and that are read in a later
  pass or after the loop. They are local variables of the whole function: apart from
  \<open>local_tip_loss\<close> and \<open>tip_loss_epsilon\<close>, which every station resets, a station starts
  with the values the previous station left.
\<close>

record station_vars =
  local_tip_loss :: real
  tip_loss_epsilon :: real
  angle_of_attack :: real
  angle_of_rwind :: real
  lift_coefficient :: real
  axial_induc_factor :: real
  angular_induc_factor :: real
  drag_coefficient :: real

text \<open>One pass of the loop body at a station with fractional radius \<open>fr\<close>
  (\<^verbatim>\<open>rct_matrix[j][0]\<close>); a primed name is the value the pass assigns.\<close>

definition tip_loss_pass ::
  "rotor_config \<Rightarrow> real \<Rightarrow> real \<Rightarrow> real \<Rightarrow> real \<Rightarrow> station_vars \<Rightarrow> station_vars" where
  "tip_loss_pass cfg fr local_tsr local_solidity local_pitch vars =
     (let (q1, q2, q3) = q_terms local_pitch local_tsr (lift_coef_slope cfg)
                                 (lift_coef_intercept cfg) local_solidity;
          angle_of_attack' = calc_attack_angle q1 q2 q3;
          angle_of_rwind' = local_pitch + angle_of_attack';
          lift_coefficient' = (angle_of_attack' *
                               lift_coef_slope cfg) + lift_coef_intercept cfg;
          axial_induc_factor' = calc_axial_factor (local_tip_loss vars)
                                                  lift_coefficient'
                                                  angle_of_rwind'
                                                  local_solidity;
          angular_induc_factor' = calc_angular_factor axial_induc_factor'
                                                      angle_of_rwind'
                                                      local_tsr;
          drag_coefficient' = (drag_coef_slope cfg *
                               angle_of_attack') + drag_coef_intercept cfg;
          old_local_tip_loss = local_tip_loss vars;
          local_tip_loss' = tip_loss (number_blades cfg) fr angle_of_rwind';
          tip_loss_epsilon' = \<bar>local_tip_loss' - old_local_tip_loss\<bar>
      in \<lparr>local_tip_loss = local_tip_loss',
          tip_loss_epsilon = tip_loss_epsilon',
          angle_of_attack = angle_of_attack',
          angle_of_rwind = angle_of_rwind',
          lift_coefficient = lift_coefficient',
          axial_induc_factor = axial_induc_factor',
          angular_induc_factor = angular_induc_factor',
          drag_coefficient = drag_coefficient'\<rparr>)"

text \<open>The tip loss that a pass computes: it is the same in every pass at a station.\<close>

definition station_tip_loss :: "rotor_config \<Rightarrow> real \<Rightarrow> real \<Rightarrow> real \<Rightarrow> real \<Rightarrow> real" where
  "station_tip_loss cfg fr local_tsr local_solidity local_pitch =
     (let (q1, q2, q3) = q_terms local_pitch local_tsr (lift_coef_slope cfg)
                                 (lift_coef_intercept cfg) local_solidity
      in tip_loss (number_blades cfg) fr (local_pitch + calc_attack_angle q1 q2 q3))"

lemma tip_loss_pass_tip_loss:
  "local_tip_loss (tip_loss_pass cfg fr local_tsr local_solidity local_pitch vars) =
     station_tip_loss cfg fr local_tsr local_solidity local_pitch"
  by (simp add: tip_loss_pass_def station_tip_loss_def Let_def split: prod.splits)

lemma tip_loss_pass_epsilon:
  "tip_loss_epsilon (tip_loss_pass cfg fr local_tsr local_solidity local_pitch vars) =
     \<bar>station_tip_loss cfg fr local_tsr local_solidity local_pitch - local_tip_loss vars\<bar>"
  by (simp add: tip_loss_pass_def station_tip_loss_def Let_def split: prod.splits)

text \<open>\<^verbatim>\<open>while tip_loss_epsilon > 0.01:\<close> with no bound on the number of passes.\<close>

function tip_loss_loop ::
  "rotor_config \<Rightarrow> real \<Rightarrow> real \<Rightarrow> real \<Rightarrow> real \<Rightarrow> station_vars \<Rightarrow> station_vars" where
  "tip_loss_loop cfg fr local_tsr local_solidity local_pitch vars =
     (if tip_loss_epsilon vars > 0.01
      then tip_loss_loop cfg fr local_tsr local_solidity local_pitch
             (tip_loss_pass cfg fr local_tsr local_solidity local_pitch vars)
      else vars)"
  by pat_completeness auto
termination
proof (relation "measure (\<lambda>(cfg, fr, local_tsr, local_solidity, local_pitch, vars).
          if tip_loss_epsilon vars > 0.01
          then (if local_tip_loss vars =
                   station_tip_loss cfg fr local_tsr local_solidity local_pitch
                then 1 else 2)
          else 0)", goal_cases)
  case 1
  show ?case by simp
next
  case (2 cfg fr local_tsr local_solidity local_pitch vars)
  then show ?case
    by (simp add: tip_loss_pass_tip_loss tip_loss_pass_epsilon)
qed

declare tip_loss_loop.simps [simp del]

text \<open>
  The body of \<^verbatim>\<open>for j in range(len(rct_matrix))\<close>: the loop's state is the result list,
  the running total and the variables above. A result row is a Python list of nine numbers.
  An exception of \<open>rotor_coefs\<close> leaves the function.
\<close>

definition station_pass ::
  "rotor_config \<Rightarrow> station list \<Rightarrow> nat \<Rightarrow> real list list \<times> real \<times> station_vars
     \<Rightarrow> py_error + real list list \<times> real \<times> station_vars" where
  "station_pass cfg rct_matrix j state =
     (let (linear_rotor_stats, total_power_coefficient, vars) = state;
          local_radius = fradius (rct_matrix ! j) * blade_radius cfg;
          local_chord = chord (rct_matrix ! j);
          local_tsr = tip_speed_ratio cfg * fradius (rct_matrix ! j);
          local_solidity = real_of_int (number_blades cfg) * local_chord / (2 * pi *
                                                                          local_radius);
          local_pitch = twist (rct_matrix ! j) + pitch_0 cfg;
          vars = vars\<lparr>local_tip_loss := 1, tip_loss_epsilon := 1\<rparr>;
          vars = tip_loss_loop cfg (fradius (rct_matrix ! j)) local_tsr local_solidity
                               local_pitch vars
      in case rotor_coefs (axial_induc_factor vars) (angular_induc_factor vars)
                          (angle_of_rwind vars) (tip_speed_ratio cfg) local_tsr
                          (length rct_matrix) local_solidity (lift_coefficient vars)
                          (drag_coefficient vars) (local_tip_loss vars) of
           Inl e \<Rightarrow> Inl e
         | Inr (local_thrust, local_torque, local_power) \<Rightarrow>
             (let total_power_coefficient = total_power_coefficient + local_power;
                  linear_rotor_stats = linear_rotor_stats @
                                         [[local_radius, local_tip_loss vars,
                                           angle_of_attack vars, angle_of_rwind vars,
                                           lift_coefficient vars, drag_coefficient vars,
                                           axial_induc_factor vars, angular_induc_factor vars,
                                           local_power]]
              in Inr (linear_rotor_stats, total_power_coefficient, vars)))"

text \<open>The \<^verbatim>\<open>for\<close> loop over the station indices that are left to visit.\<close>

fun stations_loop ::
  "rotor_config \<Rightarrow> station list \<Rightarrow> nat list \<Rightarrow> real list list \<times> real \<times> station_vars
     \<Rightarrow> py_error + real list list \<times> real \<times> station_vars" where
  "stations_loop cfg rct_matrix [] state = Inr state"
| "stations_loop cfg rct_matrix (j # js) state =
     (case station_pass cfg rct_matrix j state of
        Inl e \<Rightarrow> Inl e
      | Inr state' \<Rightarrow> stations_loop cfg rct_matrix js state')"

text \<open>
  Before the first station the variables of the loop body are not bound yet; each of them is
  assigned in the first pass of the body before anything reads it, and the zeros below stand
  for "not yet assigned" (\<open>linear_rotor_sweep_unbound\<close> shows that no result depends on them).
\<close>

definition unbound_vars :: station_vars where
  "unbound_vars =
     \<lparr>local_tip_loss = 0, tip_loss_epsilon = 0, angle_of_attack = 0, angle_of_rwind = 0,
      lift_coefficient = 0, axial_induc_factor = 0, angular_induc_factor = 0,
      drag_coefficient = 0\<rparr>"

text \<open>The function's state when the \<^verbatim>\<open>for\<close> loop is left.\<close>

definition linear_rotor_sweep ::
  "station list \<Rightarrow> rotor_config \<Rightarrow> station_vars
     \<Rightarrow> py_error + real list list \<times> real \<times> station_vars" where
  "linear_rotor_sweep rct_matrix cfg vars0 =
     stations_loop cfg rct_matrix [0..<length rct_matrix] ([], 0, vars0)"

text \<open>\<^verbatim>\<open>return linear_rotor_stats\<close>: the list alone is returned.\<close>

definition linear_rotor_analysis ::
  "station list \<Rightarrow> rotor_config \<Rightarrow> py_error + real list list" where
  "linear_rotor_analysis rct_matrix cfg =
     (case linear_rotor_sweep rct_matrix cfg unbound_vars of
        Inl e \<Rightarrow> Inl e
      | Inr (linear_rotor_stats, total_power_coefficient, vars) \<Rightarrow> Inr linear_rotor_stats)"

subsection \<open>The calls in the module's namespace\<close>

text \<open>
  \<^verbatim>\<open>tip_loss\<close> as Python runs it in a module whose global names are \<open>globals\<close>: the first step
  of its body evaluates \<^verbatim>\<open>numpy.exp\<close>.
\<close>

definition tip_loss_py :: "string set \<Rightarrow> int \<Rightarrow> real \<Rightarrow> real \<Rightarrow> py_error + real" where
  "tip_loss_py globals number_of_blades fractional_radius angle_of_rwind' =
     (if ''numpy'' \<notin> globals then Inl NameError
      else Inr (tip_loss number_of_blades fractional_radius angle_of_rwind'))"

text \<open>
  The body of the \<^verbatim>\<open>for\<close> loop of \<^verbatim>\<open>linear_rotor_analysis\<close>: its first three assignments
  read the table and the arguments only, the fourth evaluates \<^verbatim>\<open>numpy.pi\<close>. Nothing has been
  appended or added up in this pass before that.
\<close>

definition station_pass_py ::
  "string set \<Rightarrow> rotor_config \<Rightarrow> station list \<Rightarrow> nat \<Rightarrow> real list list \<times> real \<times> station_vars
     \<Rightarrow> py_error + real list list \<times> real \<times> station_vars" where
  "station_pass_py globals cfg rct_matrix j state =
     (if ''numpy'' \<notin> globals then Inl NameError
      else station_pass cfg rct_matrix j state)"

fun stations_loop_py ::
  "string set \<Rightarrow> rotor_config \<Rightarrow> station list \<Rightarrow> nat list
     \<Rightarrow> real list list \<times> real \<times> station_vars
     \<Rightarrow> py_error + real list list \<times> real \<times> station_vars" where
  "stations_loop_py globals cfg rct_matrix [] state = Inr state"
| "stations_loop_py globals cfg rct_matrix (j # js) state =
     (case station_pass_py globals cfg rct_matrix j state of
        Inl e \<Rightarrow> Inl e
      | Inr state' \<Rightarrow> stations_loop_py globals cfg rct_matrix js state')"

definition linear_rotor_analysis_py ::
  "string set \<Rightarrow> station list \<Rightarrow> rotor_config \<Rightarrow> py_error + real list list" where
  "linear_rotor_analysis_py globals rct_matrix cfg =
     (case stations_loop_py globals cfg rct_matrix [0..<length rct_matrix]
             ([], 0, unbound_vars) of
        Inl e \<Rightarrow> Inl e
      | Inr (linear_rotor_stats, total_power_coefficient, vars) \<Rightarrow> Inr linear_rotor_stats)"

section \<open>Facts about the loops\<close>

text \<open>A pass reads one variable only, the current tip loss; two passes in a row compute
  the same tip loss, so the second leaves a difference of zero.\<close>

lemma tip_loss_pass_cong:
  "local_tip_loss v = local_tip_loss w \<Longrightarrow>
   tip_loss_pass cfg fr local_tsr local_solidity local_pitch v =
   tip_loss_pass cfg fr local_tsr local_solidity local_pitch w"
  by (simp add: tip_loss_pass_def)

lemma tip_loss_pass_twice_epsilon:
  "tip_loss_epsilon (tip_loss_pass cfg fr local_tsr local_solidity local_pitch
     (tip_loss_pass cfg fr local_tsr local_solidity local_pitch v)) = 0"
  by (simp add: tip_loss_pass_epsilon tip_loss_pass_tip_loss)

lemma tip_loss_loop_exit:
  "\<not> tip_loss_epsilon vars > 0.01 \<Longrightarrow>
   tip_loss_loop cfg fr local_tsr local_solidity local_pitch vars = vars"
  by (subst tip_loss_loop.simps) simp

lemma tip_loss_loop_again:
  "tip_loss_epsilon vars > 0.01 \<Longrightarrow>
   tip_loss_loop cfg fr local_tsr local_solidity local_pitch vars =
   tip_loss_loop cfg fr local_tsr local_solidity local_pitch
     (tip_loss_pass cfg fr local_tsr local_solidity local_pitch vars)"
  by (subst tip_loss_loop.simps) simp

lemma tip_loss_loop_reset:
  "tip_loss_loop cfg fr local_tsr local_solidity local_pitch
     (vars\<lparr>local_tip_loss := 1, tip_loss_epsilon := 1\<rparr>) =
   (let pass = tip_loss_pass cfg fr local_tsr local_solidity local_pitch;
        first = pass (vars\<lparr>local_tip_loss := 1, tip_loss_epsilon := 1\<rparr>)
    in if tip_loss_epsilon first > 0.01 then pass first else first)"
proof -
  let ?pass = "tip_loss_pass cfg fr local_tsr local_solidity local_pitch"
  let ?loop = "tip_loss_loop cfg fr local_tsr local_solidity local_pitch"
  let ?init = "vars\<lparr>local_tip_loss := 1, tip_loss_epsilon := 1\<rparr>"
  have enter: "?loop ?init = ?loop (?pass ?init)"
    by (rule tip_loss_loop_again) simp
  show ?thesis
  proof (cases "tip_loss_epsilon (?pass ?init) > 0.01")
    case True
    have "?loop (?pass ?init) = ?loop (?pass (?pass ?init))"
      using True by (rule tip_loss_loop_again)
    also have "\<dots> = ?pass (?pass ?init)"
      by (rule tip_loss_loop_exit) (simp add: tip_loss_pass_twice_epsilon)
    finally show ?thesis using True enter by (simp add: Let_def)
  next
    case False
    then have "?loop (?pass ?init) = ?pass ?init"
      by (rule tip_loss_loop_exit)
    then show ?thesis using False enter by (simp add: Let_def)
  qed
qed

lemma tip_loss_loop_reset_indep:
  "tip_loss_loop cfg fr local_tsr local_solidity local_pitch
     (v\<lparr>local_tip_loss := 1, tip_loss_epsilon := 1\<rparr>) =
   tip_loss_loop cfg fr local_tsr local_solidity local_pitch
     (w\<lparr>local_tip_loss := 1, tip_loss_epsilon := 1\<rparr>)"
  unfolding tip_loss_loop_reset Let_def
  using tip_loss_pass_cong[of "v\<lparr>local_tip_loss := 1, tip_loss_epsilon := 1\<rparr>"
       "w\<lparr>local_tip_loss := 1, tip_loss_epsilon := 1\<rparr>" cfg fr local_tsr local_solidity local_pitch]
  by simp

text \<open>The row and the local power coefficient that the loop body computes for station \<open>j\<close>
  when it starts from the function's initial state.\<close>

definition station_result :: "rotor_config \<Rightarrow> station list \<Rightarrow> nat \<Rightarrow> real list \<times> real" where
  "station_result cfg rct_matrix j =
     (case station_pass cfg rct_matrix j ([], 0, unbound_vars) of
        Inl e \<Rightarrow> ([], 0)
      | Inr (rows, local_power, vars) \<Rightarrow> (last rows, local_power))"

lemma station_pass_raises:
  "tip_speed_ratio cfg * real (length rct_matrix) = 0 \<Longrightarrow>
   station_pass cfg rct_matrix j state = Inl ZeroDivisionError"
  by (simp add: station_pass_def rotor_coefs_def Let_def split: prod.splits)

lemma station_pass_returns:
  assumes "tip_speed_ratio cfg * real (length rct_matrix) \<noteq> 0"
  shows "\<exists>vars'. station_pass cfg rct_matrix j (stats, acc, vars) =
           Inr (stats @ [fst (station_result cfg rct_matrix j)],
                acc + snd (station_result cfg rct_matrix j), vars')"
  unfolding station_result_def station_pass_def Let_def
  using assms tip_loss_loop_reset_indep[of cfg _ _ _ _ vars unbound_vars]
  by (simp add: rotor_coefs_def Let_def split: prod.splits)

lemma station_result_row:
  assumes "tip_speed_ratio cfg * real (length rct_matrix) \<noteq> 0"
  shows "length (fst (station_result cfg rct_matrix j)) = 9"
    and "fst (station_result cfg rct_matrix j) ! 0 = fradius (rct_matrix ! j) * blade_radius cfg"
    and "fst (station_result cfg rct_matrix j) ! 8 = snd (station_result cfg rct_matrix j)"
  unfolding station_result_def station_pass_def Let_def
  using assms by (simp_all add: rotor_coefs_def Let_def split: prod.splits)

lemma stations_loop_returns:
  assumes "tip_speed_ratio cfg * real (length rct_matrix) \<noteq> 0"
  shows "\<exists>vars'. stations_loop cfg rct_matrix js (stats, acc, vars) =
           Inr (stats @ map (\<lambda>j. fst (station_result cfg rct_matrix j)) js,
                acc + sum_list (map (\<lambda>j. snd (station_result cfg rct_matrix j)) js), vars')"
proof (induction js arbitrary: stats acc vars)
  case Nil
  show ?case by simp
next
  case (Cons j js)
  obtain v where "station_pass cfg rct_matrix j (stats, acc, vars) =
           Inr (stats @ [fst (station_result cfg rct_matrix j)],
                acc + snd (station_result cfg rct_matrix j), v)"
    using station_pass_returns[OF assms] by blast
  moreover obtain v' where
    "stations_loop cfg rct_matrix js (stats @ [fst (station_result cfg rct_matrix j)],
                acc + snd (station_result cfg rct_matrix j), v) =
       Inr ((stats @ [fst (station_result cfg rct_matrix j)]) @
              map (\<lambda>j. fst (station_result cfg rct_matrix j)) js,
            (acc + snd (station_result cfg rct_matrix j)) +
              sum_list (map (\<lambda>j. snd (station_result cfg rct_matrix j)) js), v')"
    using Cons.IH by blast
  ultimately show ?case by (simp add: add.assoc)
qed

lemma linear_rotor_sweep_returns:
  assumes "tip_speed_ratio cfg \<noteq> 0"
  shows "\<exists>vars'. linear_rotor_sweep rct_matrix cfg vars =
           Inr (map (\<lambda>j. fst (station_result cfg rct_matrix j)) [0..<length rct_matrix],
                sum_list (map (\<lambda>j. snd (station_result cfg rct_matrix j))
                           [0..<length rct_matrix]), vars')"
proof (cases "rct_matrix = []")
  case True
  then show ?thesis by (simp add: linear_rotor_sweep_def)
next
  case False
  then have "tip_speed_ratio cfg * real (length rct_matrix) \<noteq> 0"
    using assms by simp
  from stations_loop_returns[OF this, of "[0..<length rct_matrix]" "[]" 0 vars]
  show ?thesis by (simp add: linear_rotor_sweep_def)
qed

lemma linear_rotor_sweep_unbound:
  "map_sum id fst (linear_rotor_sweep rct_matrix cfg v) =
   map_sum id fst (linear_rotor_sweep rct_matrix cfg w)"
proof (cases "tip_speed_ratio cfg = 0 \<and> rct_matrix \<noteq> []")
  case True
  then have "[0..<length rct_matrix] = 0 # [Suc 0..<length rct_matrix]"
    by (simp add: upt_rec)
  then show ?thesis
    using True by (simp add: linear_rotor_sweep_def station_pass_raises)
next
  case False
  show ?thesis
  proof (cases "rct_matrix = []")
    case True
    then show ?thesis by (simp add: linear_rotor_sweep_def)
  next
    case nonempty: False
    with False have "tip_speed_ratio cfg \<noteq> 0" by simp
    from linear_rotor_sweep_returns[OF this, of rct_matrix v]
      linear_rotor_sweep_returns[OF this, of rct_matrix w]
    show ?thesis by auto
  qed
qed

lemma linear_rotor_analysis_raises:
  assumes "tip_speed_ratio cfg = 0" and "rct_matrix \<noteq> []"
  shows "linear_rotor_analysis rct_matrix cfg = Inl ZeroDivisionError"
proof -
  have "[0..<length rct_matrix] = 0 # [Suc 0..<length rct_matrix]"
    using assms(2) by (simp add: upt_rec)
  then show ?thesis
    using assms(1)
    by (simp add: linear_rotor_analysis_def linear_rotor_sweep_def station_pass_raises)
qed

lemma station_result_same_row:
  "station_result cfg [g, g] 0 = station_result cfg [g, g] (Suc 0)"
  by (simp add: station_result_def station_pass_def)

section \<open>Numeric facts\<close>

lemma pi_ge_three: "3 \<le> pi"
proof -
  have "sin (pi / 6) \<le> pi / 6" by (rule sin_x_le_x) simp
  then show ?thesis by (simp add: sin_30)
qed

lemma tan_one_le_two: "tan (1::real) \<le> 2"
proof -
  have "cos (pi / 3) \<le> cos 1"
    using pi_ge_three by (intro cos_monotone_0_pi_le) simp_all
  then have c: "1 / 2 \<le> cos (1::real)" by (simp add: cos_60)
  have "sin (1::real) \<le> 1" by (rule sin_le_one)
  then have "sin (1::real) \<le> 2 * cos 1" using c by linarith
  then show ?thesis using c by (simp add: tan_def field_simps)
qed

lemma arctan_gt_one:
  assumes "2 < y"
  shows "1 < arctan y"
proof -
  have "arctan (tan 1) = 1"
    using pi_ge_three by (intro arctan_tan) simp_all
  moreover have "tan 1 < y" using assms tan_one_le_two by linarith
  ultimately show ?thesis using arctan_monotone[of "tan 1" y] by simp
qed

lemma prandtl_branch_gt_one:
  assumes "0 < tmp" and "tmp \<le> 1 / 10"
  shows "1 < arctan ((sqrt (1 - tmp ^ 2) / tmp) / (pi / 2))"
proof (rule arctan_gt_one)
  have "tmp ^ 2 \<le> (1 / 10) ^ 2"
    using assms by (intro power_mono) simp_all
  then have "(9 / 10) ^ 2 \<le> 1 - tmp ^ 2"
    by (simp add: power2_eq_square)
  then have "9 / 10 \<le> sqrt (1 - tmp ^ 2)"
    by (rule real_le_rsqrt)
  moreover have "tmp * 9 \<le> 9 / 10" using assms by simp
  ultimately have "tmp * 9 \<le> sqrt (1 - tmp ^ 2)" by linarith
  then have nine: "9 \<le> sqrt (1 - tmp ^ 2) / tmp"
    using assms(1) by (simp add: field_simps)
  have "2 * (pi / 2) < 9" using pi_less_4 by simp
  then have "2 * (pi / 2) < sqrt (1 - tmp ^ 2) / tmp" using nine by linarith
  moreover have "0 < pi / 2" by simp
  ultimately show "2 < sqrt (1 - tmp\<^sup>2) / tmp / (pi / 2)"
    by (subst pos_less_divide_eq)
qed

lemma exp_minus_small:
  assumes "9 \<le> (e::real)"
  shows "0 < exp (- e) \<and> exp (- e) \<le> 1 / 10 \<and> 0 < 1 - exp (- e) ^ 2"
proof -
  have "10 \<le> exp e" using exp_ge_add_one_self[of e] assms by linarith
  then have le: "exp (- e) \<le> 1 / 10"
    by (simp add: exp_minus field_simps)
  have "exp (- e) ^ 2 \<le> (1 / 10) ^ 2"
    using le by (intro power_mono) simp_all
  then show ?thesis using le by (simp add: power2_eq_square)
qed


lemma calc_attack_angle_residual:
  assumes "q1 \<noteq> 0" and "0 \<le> q2 ^ 2 - 4 * q1 * q3"
  shows "q1 * (calc_attack_angle q1 q2 q3) ^ 2 + q2 * calc_attack_angle q1 q2 q3 + q3 =
           2 * q2 * calc_attack_angle q1 q2 q3"
    and "q1 * (calc_attack_angle q1 q2 q3) ^ 2 - q2 * calc_attack_angle q1 q2 q3 + q3 = 0"
proof -
  define s where "s = sqrt (q2 ^ 2 - 4 * q1 * q3)"
  have s2: "s * s = q2 * q2 - 4 * q1 * q3"
    using assms(2) by (simp add: s_def power2_eq_square)
  have a: "calc_attack_angle q1 q2 q3 = (q2 - s) / (2 * q1)"
    by (simp add: calc_attack_angle_def s_def)
  have "q1 * ((q2 - s) / (2 * q1)) ^ 2 - q2 * ((q2 - s) / (2 * q1)) + q3 =
        (s * s - (q2 * q2 - 4 * q1 * q3)) / (4 * q1)"
    using assms(1) by (simp add: field_simps power2_eq_square)
  then show "q1 * (calc_attack_angle q1 q2 q3) ^ 2 - q2 * calc_attack_angle q1 q2 q3 + q3 = 0"
    by (simp add: a s2)
  then show "q1 * (calc_attack_angle q1 q2 q3) ^ 2 + q2 * calc_attack_angle q1 q2 q3 + q3 =
           2 * q2 * calc_attack_angle q1 q2 q3"
    by simp
qed

text \<open>A product or a sum with a value that is not finite is not finite, and so is every
  quotient by zero. The value of an operation on floats of either kind is the operation on the
  values.\<close>

lemma nonfinite_times: "\<not> finite_float a \<Longrightarrow> \<not> finite_float (a * b)"
  by (cases a; cases b) simp_all

lemma nonfinite_plus: "\<not> finite_float b \<Longrightarrow> \<not> finite_float (a + b)"
  by (cases a; cases b) simp_all

lemma nonfinite_minus: "\<not> finite_float b \<Longrightarrow> \<not> finite_float (a - b)"
  by (cases a; cases b) (simp_all add: minus_np_float_def)

lemma nonfinite_zero_divisor: "\<not> finite_float (x / Finite 0)"
  by (cases x) simp_all

lemma float_value_ops:
  "float_value (a + b) = float_value a + float_value b"
  "float_value (a - b) = float_value a - float_value b"
  "float_value (a * b) = float_value a * float_value b"
  "float_value (numpy_cos a) = np_cos (float_value a)"
  "float_value (numpy_sin a) = np_sin (float_value a)"
  by (cases a; cases b; simp add: numpy_cos_def numpy_sin_def)+

lemma py_div_zero:
  assumes "float_value b = Finite 0"
  shows "py_div a b = (if is_python a \<and> is_python b then Inl ZeroDivisionError
                       else Inr (Np (float_value a / Finite 0)))"
  using assms by (cases a; cases b) simp_all

lemma is_python_times: "is_python (Py x * b) = is_python b"
  by (cases b) simp_all

section \<open>With the name numpy bound\<close>

text \<open>
  Once \<^verbatim>\<open>numpy\<close> is bound, the calls are the function bodies of the first layer.
\<close>

lemma tip_loss_py_bound:
  "''numpy'' \<in> globals \<Longrightarrow>
   tip_loss_py globals number_of_blades fractional_radius phi =
     Inr (tip_loss number_of_blades fractional_radius phi)"
  by (simp add: tip_loss_py_def)

lemma stations_loop_py_bound:
  "''numpy'' \<in> globals \<Longrightarrow>
   stations_loop_py globals cfg rct_matrix js state = stations_loop cfg rct_matrix js state"
  by (induction js arbitrary: state) (simp_all add: station_pass_py_def split: sum.splits)

lemma linear_rotor_analysis_py_bound:
  "''numpy'' \<in> globals \<Longrightarrow>
   linear_rotor_analysis_py globals rct_matrix cfg = linear_rotor_analysis rct_matrix cfg"
  by (simp add: linear_rotor_analysis_py_def linear_rotor_analysis_def linear_rotor_sweep_def
      stations_loop_py_bound)

lemma linear_rotor_analysis_py_unbound:
  assumes "''numpy'' \<notin> globals" and "rct_matrix \<noteq> []"
  shows "linear_rotor_analysis_py globals rct_matrix cfg = Inl NameError"
proof -
  have "[0..<length rct_matrix] = 0 # [Suc 0..<length rct_matrix]"
    using assms(2) by (simp add: upt_rec)
  then show ?thesis
    using assms(1) by (simp add: linear_rotor_analysis_py_def station_pass_py_def)
qed

text \<open>
  The fallback of \<open>tip_loss\<close>: whenever the Prandtl argument
  \<open>t = exp (-(B/2) * (1 - r) / (r * sin \<phi>))\<close> has \<open>t \<le> 0\<close> or \<open>1 - t\<^sup>2 \<le> 0\<close> the body returns 1,
  with \<open>B/2\<close> read as the exact half and with \<open>B/2\<close> read as the source computes it. (Over the
  reals only the second condition can hold.)
\<close>

lemma tip_loss_fallback:
  assumes "h = real_of_int number_of_blades / 2 \<or> h = real_of_int (number_of_blades div 2)"
    and "t = exp (- h * (1 - fractional_radius) / (fractional_radius * sin phi))"
    and "t \<le> 0 \<or> 1 - t ^ 2 \<le> 0"
  shows "tip_loss number_of_blades fractional_radius phi = 1"
proof -
  define x where "x = (1 - fractional_radius) / (fractional_radius * sin phi)"
  define k where "k = real_of_int (number_of_blades div 2)"
  have t: "t = exp (- (h * x))" by (simp add: assms(2) x_def)
  have "1 \<le> t ^ 2" using assms(3) t by auto
  then have "1 \<le> t" using t by (simp add: power2_eq_square flip: exp_add)
  then have hx: "h * x \<le> 0" using t by simp
  have "k * x \<le> 0"
  proof (cases "h = k")
    case True
    with hx show ?thesis by simp
  next
    case False
    then have h: "h = real_of_int number_of_blades / 2" using assms(1) k_def by blast
    consider "x = 0" | "0 < x" | "x < 0" by linarith
    then show ?thesis
    proof cases
      case 1
      then show ?thesis by simp
    next
      case 2
      then have "real_of_int number_of_blades \<le> 0" using hx h by (simp add: mult_le_0_iff)
      then have "number_of_blades div 2 \<le> 0" by linarith
      then have "k \<le> 0" by (simp add: k_def)
      then show ?thesis using 2 by (simp add: mult_le_0_iff)
    next
      case 3
      then have "0 \<le> real_of_int number_of_blades" using hx h by (simp add: mult_le_0_iff)
      then have "0 \<le> number_of_blades div 2" by linarith
      then have "0 \<le> k" by (simp add: k_def)
      then show ?thesis using 3 by (simp add: mult_le_0_iff)
    qed
  qed
  then have "1 \<le> exp (- (k * x))" by simp
  then have "1 \<le> exp (- (k * x)) ^ 2"
    by (simp add: power2_eq_square flip: exp_add)
  moreover have "exp (- real_of_int (number_of_blades div 2) * (1 - fractional_radius) /
                     (fractional_radius * sin phi)) = exp (- (k * x))"
    by (simp add: k_def x_def)
  ultimately show ?thesis
    unfolding tip_loss_def Let_def by simp
qed

text \<open>
  The order of the stations: for a tip-speed ratio other than zero the body of
  \<open>linear_rotor_analysis\<close> returns one row per station, in the order of the table; the row at
  position \<open>j\<close> is the row that the loop body computes for station \<open>j\<close> from whatever values
  the loop's variables hold when the station starts, and its first entry is the station's
  fractional radius times the blade radius.
\<close>

lemma linear_rotor_analysis_station_order:
  assumes "tip_speed_ratio cfg \<noteq> 0"
  shows "\<exists>stats. linear_rotor_analysis rct_matrix cfg = Inr stats \<and>
           length stats = length rct_matrix \<and>
           (\<forall>j < length rct_matrix.
              (\<exists>vars'. station_pass cfg rct_matrix j ([], 0, vars) =
                         Inr ([stats ! j], stats ! j ! 8, vars')) \<and>
              stats ! j ! 0 = fradius (rct_matrix ! j) * blade_radius cfg)"
proof -
  let ?stats = "map (\<lambda>j. fst (station_result cfg rct_matrix j)) [0..<length rct_matrix]"
  have "linear_rotor_analysis rct_matrix cfg = Inr ?stats"
    using linear_rotor_sweep_returns[OF assms, of rct_matrix unbound_vars]
    by (auto simp add: linear_rotor_analysis_def)
  moreover have "length ?stats = length rct_matrix" by simp
  moreover have "(\<exists>vars'. station_pass cfg rct_matrix j ([], 0, vars) =
                         Inr ([?stats ! j], ?stats ! j ! 8, vars')) \<and>
              ?stats ! j ! 0 = fradius (rct_matrix ! j) * blade_radius cfg"
    if "j < length rct_matrix" for j
  proof -
    have n: "tip_speed_ratio cfg * real (length rct_matrix) \<noteq> 0"
      using assms that by auto
    show ?thesis
      using that station_pass_returns[OF n, of j "[]" 0 vars] station_result_row[OF n, of j]
      by simp
  qed
  ultimately show ?thesis by blast
qed

text \<open>
  Two identical rows give two identical result rows: a station's result does not depend on
  the station before it.
\<close>

lemma linear_rotor_analysis_identical_stations:
  assumes "tip_speed_ratio cfg \<noteq> 0"
  shows "\<exists>a b. linear_rotor_analysis [g, g] cfg = Inr [a, b] \<and> drop 1 a = drop 1 b \<and> a = b"
proof -
  have "[0..<length [g, g]] = [0, Suc 0]" by (simp add: upt_rec)
  then have "linear_rotor_analysis [g, g] cfg =
      Inr [fst (station_result cfg [g, g] 0), fst (station_result cfg [g, g] (Suc 0))]"
    using linear_rotor_sweep_returns[OF assms, of "[g, g]" unbound_vars]
    by (auto simp add: linear_rotor_analysis_def)
  then show ?thesis by (simp add: station_result_same_row)
qed

section \<open>The claims\<close>

text \<open>
  C1. For non-degenerate inputs (\<open>q1\<close> nonzero, discriminant nonnegative) the angle of attack
  that \<open>calc_attack_angle\<close> returns for the terms of \<open>q_terms\<close> is claimed to satisfy
  \<open>q1 * \<alpha>\<^sup>2 + q2 * \<alpha> + q3 = 0\<close> up to 1e-9. The function returns \<open>(q2 - sqrt d) / (2 * q1)\<close>,
  the negation of a root (\<open>calc_attack_angle_residual\<close>): the residual is \<open>2 * q2 * \<alpha>\<close>.
  At pitch 0, local tip-speed ratio 1, lift slope 5, lift intercept 1 and solidity 4 the
  terms are 6, 5 and 1, the angle returned is 1/3 and the residual is 10/3; the roots of
  \<open>6 * x\<^sup>2 + 5 * x + 1\<close> are -1/2 and -1/3.
\<close>

theorem calc_attack_angle_not_a_root:
  "q_terms 0 1 5 1 4 = (6, 5, 1) \<and>
   (6::real) \<noteq> 0 \<and> (0::real) \<le> 5 ^ 2 - 4 * 6 * 1 \<and>
   calc_attack_angle 6 5 1 = 1 / 3 \<and>
   6 * (calc_attack_angle 6 5 1) ^ 2 + 5 * calc_attack_angle 6 5 1 + 1 = 10 / 3"
  by (simp add: q_terms_def calc_attack_angle_def power2_eq_square)

text \<open>
  C2. Where \<open>t = exp (-(B/2) * (1 - r) / (r * sin \<phi>))\<close> has \<open>0 < t\<close> and \<open>0 < 1 - t\<^sup>2\<close>,
  \<open>tip_loss\<close> is claimed to return Prandtl's value \<open>arctan (sqrt (1 - t\<^sup>2) / t) / (pi / 2)\<close>.
  The source divides by \<open>pi / 2\<close> inside the argument of the arc tangent: for 2 blades at
  fractional radius 1/10 and relative-wind angle \<open>pi / 2\<close> the value returned is above 1,
  Prandtl's value is below 1.
\<close>

theorem tip_loss_not_prandtl:
  "(let t = exp (- (2 / 2) * (1 - 1 / 10) / (1 / 10 * sin (pi / 2)))
    in t > 0 \<and> 1 - t ^ 2 > 0 \<and>
       tip_loss 2 (1 / 10) (pi / 2) \<noteq> arctan (sqrt (1 - t ^ 2) / t) / (pi / 2))"
proof -
  have t: "exp (- (2 / 2) * (1 - 1 / 10) / (1 / 10 * sin (pi / 2))) = exp (- (9::real))"
    by simp
  have code: "tip_loss 2 (1 / 10) (pi / 2) =
      arctan ((sqrt (1 - exp (- (9::real)) ^ 2) / exp (- 9)) / (pi / 2))"
    using exp_minus_small[of 9] by (simp add: tip_loss_def Let_def)
  have "1 < tip_loss 2 (1 / 10) (pi / 2)"
    unfolding code using exp_minus_small[of 9] by (intro prandtl_branch_gt_one) simp_all
  moreover have "arctan (sqrt (1 - exp (- (9::real)) ^ 2) / exp (- 9)) / (pi / 2) < 1"
    using arctan_ubound[of "sqrt (1 - exp (- (9::real)) ^ 2) / exp (- 9)"] by simp
  ultimately have "tip_loss 2 (1 / 10) (pi / 2) \<noteq>
      arctan (sqrt (1 - exp (- (9::real)) ^ 2) / exp (- 9)) / (pi / 2)"
    by linarith
  then show ?thesis
    unfolding t Let_def using exp_minus_small[of 9] by blast
qed

text \<open>
  C3. For a fractional radius strictly between 0 and 1 and a positive blade count the value of
  \<open>tip_loss\<close> is claimed to lie in the interval from 0 to 1. For 3 blades at fractional radius
  1/2 and relative-wind angle 1/10 the value returned is greater than 1.
\<close>

theorem tip_loss_exceeds_one:
  "0 < (1 / 2 :: real) \<and> (1 / 2 :: real) < 1 \<and> (0::int) < 3 \<and> 1 < tip_loss 3 (1 / 2) (1 / 10)"
proof -
  have "0 < sin (1 / 10 :: real)"
    by (rule sin_gt_zero_02) simp_all
  moreover have "sin (1 / 10 :: real) \<le> 1 / 10"
    by (rule sin_x_le_x) simp
  ultimately have s: "0 < sin (1 / 10 :: real)" "sin (1 / 10 :: real) \<le> 1 / 10"
    by simp_all
  define e where "e = 1 / sin (1 / 10 :: real)"
  have e: "9 \<le> e" using s by (simp add: e_def field_simps)
  have tmp: "- real_of_int (3 div 2) * (1 - 1 / 2) / (1 / 2 * sin (1 / 10 :: real)) = - e"
    by (simp add: e_def)
  have "tip_loss 3 (1 / 2) (1 / 10) =
      arctan ((sqrt (1 - exp (- e) ^ 2) / exp (- e)) / (pi / 2))"
    unfolding tip_loss_def tmp Let_def using exp_minus_small[OF e] by simp
  moreover have "1 < arctan ((sqrt (1 - exp (- e) ^ 2) / exp (- e)) / (pi / 2))"
    using exp_minus_small[OF e] by (intro prandtl_branch_gt_one) simp_all
  ultimately show ?thesis by simp
qed

text \<open>
  C4. \<open>linear_rotor_analysis\<close> is claimed to return, with the list of station results, the
  total power coefficient, equal to the sum of the stations' local power coefficients. The
  loop does keep that sum (the second component of the state when the loop is left is the
  sum of the ninth entries of the rows), but the function returns the list alone.
\<close>

theorem linear_rotor_analysis_total_not_returned:
  "(case linear_rotor_sweep rct_matrix cfg unbound_vars of
      Inl e \<Rightarrow> linear_rotor_analysis rct_matrix cfg = Inl e
    | Inr (stats, total_power_coefficient, vars) \<Rightarrow>
        linear_rotor_analysis rct_matrix cfg = Inr stats \<and>
        total_power_coefficient = sum_list (map (\<lambda>row. row ! 8) stats))"
proof (cases "tip_speed_ratio cfg = 0")
  case True
  show ?thesis
  proof (cases "rct_matrix = []")
    case True
    then show ?thesis by (simp add: linear_rotor_analysis_def linear_rotor_sweep_def)
  next
    case False
    then have "[0..<length rct_matrix] = 0 # [Suc 0..<length rct_matrix]"
      by (simp add: upt_rec)
    then show ?thesis
      using True by (simp add: linear_rotor_analysis_def linear_rotor_sweep_def station_pass_raises)
  qed
next
  case False
  have power: "fst (station_result cfg rct_matrix j) ! 8 = snd (station_result cfg rct_matrix j)"
    if "j < length rct_matrix" for j
  proof -
    have "tip_speed_ratio cfg * real (length rct_matrix) \<noteq> 0" using False that by auto
    then show ?thesis by (rule station_result_row)
  qed
  have "sum_list (map (\<lambda>j. snd (station_result cfg rct_matrix j)) [0..<length rct_matrix]) =
        sum_list (map (\<lambda>row. row ! 8)
          (map (\<lambda>j. fst (station_result cfg rct_matrix j)) [0..<length rct_matrix]))"
  proof -
    have "sum_list (map (\<lambda>j. snd (station_result cfg rct_matrix j)) [0..<length rct_matrix]) =
          sum_list (map (\<lambda>j. fst (station_result cfg rct_matrix j) ! 8)
                     [0..<length rct_matrix])"
      by (rule arg_cong[where f = sum_list], rule map_cong) (simp_all add: power)
    also have "\<dots> = sum_list (map (\<lambda>row. row ! 8)
          (map (\<lambda>j. fst (station_result cfg rct_matrix j)) [0..<length rct_matrix]))"
      by (simp only: map_map comp_def)
    finally show ?thesis .
  qed
  then show ?thesis
    using linear_rotor_sweep_returns[OF False, of rct_matrix unbound_vars]
    by (auto simp add: linear_rotor_analysis_def)
qed

text \<open>
  C5. Whenever the Prandtl argument \<open>t = exp (-(B/2) * (1 - r) / (r * sin \<phi>))\<close> has \<open>t \<le> 0\<close> or
  \<open>1 - t\<^sup>2 \<le> 0\<close>, \<open>tip_loss\<close> is claimed to return exactly 1. The body does so once \<^verbatim>\<open>numpy\<close> is
  bound (\<open>tip_loss_fallback\<close>), but the module never binds that name: for 2 blades at
  fractional radius 1/2 and relative-wind angle \<open>- pi / 2\<close>, where \<open>t = exp 1\<close>, the call raises
  \<^verbatim>\<open>NameError\<close>; with the name bound it returns 1.
\<close>

theorem tip_loss_name_error:
  "tip_loss_py module_globals 2 (1 / 2) (- pi / 2) = Inl NameError \<and>
   tip_loss_py (insert ''numpy'' module_globals) 2 (1 / 2) (- pi / 2) = Inr 1"
proof -
  have h: "(1::real) = real_of_int 2 / 2 \<or> (1::real) = real_of_int (2 div 2)" by simp
  have t: "exp (1::real) = exp (- 1 * (1 - 1 / 2) / (1 / 2 * sin (- pi / 2)))" by simp
  have "1 \<le> exp (1::real) * exp 1" by (simp flip: exp_add)
  then have c: "exp 1 \<le> (0::real) \<or> 1 - (exp (1::real)) ^ 2 \<le> 0"
    by (simp add: power2_eq_square)
  have "tip_loss 2 (1 / 2) (- pi / 2) = 1"
    by (rule tip_loss_fallback[OF h t c])
  then show ?thesis
    by (simp add: tip_loss_py_def module_globals_def)
qed

text \<open>
  C6. For every geometry table \<open>linear_rotor_analysis\<close> is claimed to return one row per
  station, in the order of the table. The body does so once \<^verbatim>\<open>numpy\<close> is bound
  (\<open>linear_rotor_analysis_station_order\<close>), but in the module as it is loaded the first
  station's pass raises \<^verbatim>\<open>NameError\<close> for every table that is not empty
  (\<open>linear_rotor_analysis_py_unbound\<close>): for the table of the one station with fractional
  radius 1/2, chord 3/10 and twist 1/10 no row is returned.
\<close>

theorem linear_rotor_analysis_name_error:
  "linear_rotor_analysis_py module_globals
     [\<lparr>fradius = 1 / 2, chord = 3 / 10, twist = 1 / 10\<rparr>]
     \<lparr>tip_speed_ratio = 7, number_blades = 3, pitch_0 = 0, blade_radius = 20,
        hub_radius = 0, lift_coef_slope = 573 / 100, lift_coef_intercept = 3 / 10,
        drag_coef_slope = 1 / 100, drag_coef_intercept = 1 / 100\<rparr> = Inl NameError"
  by (simp add: linear_rotor_analysis_py_def station_pass_py_def module_globals_def)

text \<open>
  C7. For a table of two identical rows \<open>linear_rotor_analysis\<close> is claimed to produce two
  result rows that agree in every entry after the first. The body does so once \<^verbatim>\<open>numpy\<close> is
  bound (\<open>linear_rotor_analysis_identical_stations\<close>), but in the module as it is loaded the
  call raises \<^verbatim>\<open>NameError\<close> in the first station's pass and produces no row at all.
\<close>

theorem linear_rotor_analysis_two_stations_name_error:
  "linear_rotor_analysis_py module_globals
     [\<lparr>fradius = 1 / 2, chord = 3 / 10, twist = 1 / 10\<rparr>,
      \<lparr>fradius = 1 / 2, chord = 3 / 10, twist = 1 / 10\<rparr>]
     \<lparr>tip_speed_ratio = 7, number_blades = 3, pitch_0 = 0, blade_radius = 20,
        hub_radius = 0, lift_coef_slope = 573 / 100, lift_coef_intercept = 3 / 10,
        drag_coef_slope = 1 / 100, drag_coef_intercept = 1 / 100\<rparr> = Inl NameError"
  by (simp add: linear_rotor_analysis_py_def station_pass_py_def module_globals_def upt_rec)

text \<open>
  C8. For a zero \<open>local_solidity\<close> the terms of \<open>q_terms\<close> are claimed to be nan, with no
  exception raised. For every input in which \<open>local_solidity\<close> is zero, and with \<^verbatim>\<open>numpy\<close>
  bound: when \<open>local_tsr\<close> and \<open>local_solidity\<close> are both Python floats the quotient
  \<open>4 * local_tsr / local_solidity\<close> raises \<^verbatim>\<open>ZeroDivisionError\<close>; otherwise nothing is raised and
  each of the three terms is an infinity or nan. (Without the name the call raises
  \<^verbatim>\<open>NameError\<close>.)
\<close>

theorem q_terms_zero_solidity_nonfinite:
  assumes "float_value solidity = Finite 0"
  shows "if ''numpy'' \<notin> globals
         then q_terms_py globals pitch tsr slope intercept solidity = Inl NameError
         else if is_python tsr \<and> is_python solidity
         then q_terms_py globals pitch tsr slope intercept solidity = Inl ZeroDivisionError
         else (\<exists>q1 q2 q3.
                 q_terms_py globals pitch tsr slope intercept solidity = Inr (q1, q2, q3) \<and>
                 \<not> finite_float (float_value q1) \<and> \<not> finite_float (float_value q2) \<and>
                 \<not> finite_float (float_value q3))"
proof (cases "''numpy'' \<in> globals")
  case False
  then show ?thesis by (simp add: q_terms_py_def)
next
  case bound: True
  show ?thesis
  proof (cases "is_python tsr \<and> is_python solidity")
    case True
    then show ?thesis
      using bound py_div_zero[OF assms, of "Py (Finite 4) * tsr"]
      by (simp add: q_terms_py_def Let_def is_python_times)
  next
    case False
    define k where "k = Np (float_value (Py (Finite 4) * tsr) / Finite 0)"
    have div: "py_div (Py (Finite 4) * tsr) solidity = Inr k"
      using False py_div_zero[OF assms, of "Py (Finite 4) * tsr"]
      by (simp add: k_def is_python_times)
    have k: "\<not> finite_float (float_value k)"
      by (simp add: k_def nonfinite_zero_divisor)
    define d1 where "d1 = numpy_cos pitch - tsr * numpy_sin pitch"
    define d2 where "d2 = numpy_sin pitch + tsr * numpy_cos pitch"
    let ?q1 = "(d1 * slope) + (k * numpy_cos pitch * d2)"
    let ?q2 = "d2 * slope + (d1 * intercept -
                 k * (d1 * numpy_cos pitch - d2 * numpy_sin pitch))"
    let ?q3 = "d2 * intercept - (k * d1 * numpy_sin pitch)"
    have "q_terms_py globals pitch tsr slope intercept solidity = Inr (?q1, ?q2, ?q3)"
      using bound div by (simp add: q_terms_py_def Let_def d1_def d2_def)
    moreover have "\<not> finite_float (float_value ?q1)"
      unfolding float_value_ops(1)[of "d1 * slope"] float_value_ops(3)[of "k * numpy_cos pitch"]
        float_value_ops(3)[of k]
      by (intro nonfinite_plus nonfinite_times k)
    moreover have "\<not> finite_float (float_value ?q2)"
      unfolding float_value_ops(1)[of "d2 * slope"]
        float_value_ops(2)[of "d1 * intercept"] float_value_ops(3)[of k]
      by (intro nonfinite_plus nonfinite_minus nonfinite_times k)
    moreover have "\<not> finite_float (float_value ?q3)"
      unfolding float_value_ops(2)[of "d2 * intercept"]
        float_value_ops(3)[of "k * d1"] float_value_ops(3)[of k]
      by (intro nonfinite_minus nonfinite_times k)
    ultimately show ?thesis using bound False by auto
  qed
qed

theorem q_terms_zero_solidity_nonfinite_witness:
  "float_value (Np (Finite 0)) = Finite 0 \<and>
   q_terms_py (insert ''numpy'' module_globals) (Py (Finite 0)) (Py (Finite 1)) (Py (Finite 5))
     (Py (Finite 1)) (Py (Finite 0)) = Inl ZeroDivisionError \<and>
   (\<exists>q1 q2 q3.
      q_terms_py (insert ''numpy'' module_globals) (Np (Finite 0)) (Np (Finite 1))
        (Np (Finite 5)) (Np (Finite 1)) (Np (Finite 0)) = Inr (q1, q2, q3) \<and>
      \<not> finite_float (float_value q1) \<and> \<not> finite_float (float_value q2) \<and>
      \<not> finite_float (float_value q3))"
proof -
  have p: "float_value (Py (Finite 0)) = Finite 0" and n: "float_value (Np (Finite 0)) = Finite 0"
    by simp_all
  from q_terms_zero_solidity_nonfinite[OF p, of "insert ''numpy'' module_globals"
      "Py (Finite 0)" "Py (Finite 1)" "Py (Finite 5)" "Py (Finite 1)"]
    q_terms_zero_solidity_nonfinite[OF n, of "insert ''numpy'' module_globals"
      "Np (Finite 0)" "Np (Finite 1)" "Np (Finite 5)" "Np (Finite 1)"]
  show ?thesis by simp
qed

text \<open>
  The claim fails in each of the three ways: in the module as it is loaded the call raises
  \<^verbatim>\<open>NameError\<close>; with \<^verbatim>\<open>numpy\<close> bound and Python floats it raises \<^verbatim>\<open>ZeroDivisionError\<close>; with
  \<^verbatim>\<open>numpy\<close> bound and numpy floats, at pitch \<open>pi / 4\<close> and local tip-speed ratio 2, the three
  terms are plus infinity and none is nan.
\<close>

theorem q_terms_zero_solidity_not_nan:
  "q_terms_py module_globals (Py (Finite 0)) (Py (Finite 1)) (Py (Finite 5))
     (Py (Finite 1)) (Py (Finite 0)) = Inl NameError \<and>
   q_terms_py (insert ''numpy'' module_globals) (Py (Finite 0)) (Py (Finite 1)) (Py (Finite 5))
     (Py (Finite 1)) (Py (Finite 0)) = Inl ZeroDivisionError \<and>
   q_terms_py (insert ''numpy'' module_globals) (Np (Finite (pi / 4))) (Np (Finite 2))
     (Np (Finite (573 / 100))) (Np (Finite (3 / 10))) (Np (Finite 0)) =
       Inr (Np PInf, Np PInf, Np PInf)"
proof (intro conjI)
  show "q_terms_py module_globals (Py (Finite 0)) (Py (Finite 1)) (Py (Finite 5))
          (Py (Finite 1)) (Py (Finite 0)) = Inl NameError"
    by (simp add: q_terms_py_def module_globals_def)
  show "q_terms_py (insert ''numpy'' module_globals) (Py (Finite 0)) (Py (Finite 1))
          (Py (Finite 5)) (Py (Finite 1)) (Py (Finite 0)) = Inl ZeroDivisionError"
    by (simp add: q_terms_py_def Let_def)
next
  define c :: real where "c = sqrt 2 / 2"
  have pos: "0 < c" and neg: "\<not> 0 < - c" and nz: "c \<noteq> 0"
    by (simp_all add: c_def)
  have sq: "c * c = 1 / 2" by (simp add: c_def)
  have cs: "numpy_cos (Np (Finite (pi / 4))) = Np (Finite c)"
      "numpy_sin (Np (Finite (pi / 4))) = Np (Finite c)"
    by (simp_all add: numpy_cos_def numpy_sin_def c_def cos_45 sin_45)
  have d1: "Np (Finite c) - Np (Finite 2) * Np (Finite c) = Np (Finite (- c))"
    by (simp add: minus_np_float_def)
  have d2: "Np (Finite c) + Np (Finite 2) * Np (Finite c) = Np (Finite (3 * c))"
    by simp
  have k: "py_div (Py (Finite 4) * Np (Finite 2)) (Np (Finite 0)) = Inr (Np PInf)" by simp
  have "- c * c - 3 * c * c = - 4 * (c * c)" by (simp add: algebra_simps)
  then have m: "Np (Finite (- c)) * Np (Finite c) - Np (Finite (3 * c)) * Np (Finite c) =
                  Np (Finite (- 2))"
    by (simp add: minus_np_float_def sq)
  have q1: "Np (Finite (- c)) * Np (Finite (573 / 100)) +
              Np PInf * Np (Finite c) * Np (Finite (3 * c)) = Np PInf"
    using pos by simp
  have q2: "Np (Finite (3 * c)) * Np (Finite (573 / 100)) +
              (Np (Finite (- c)) * Np (Finite (3 / 10)) - Np PInf * Np (Finite (- 2))) =
            Np PInf"
    by (simp add: minus_np_float_def)
  have q3: "Np (Finite (3 * c)) * Np (Finite (3 / 10)) -
              Np PInf * Np (Finite (- c)) * Np (Finite c) = Np PInf"
    using pos neg nz by (simp add: minus_np_float_def)
  show "q_terms_py (insert ''numpy'' module_globals) (Np (Finite (pi / 4))) (Np (Finite 2))
     (Np (Finite (573 / 100))) (Np (Finite (3 / 10))) (Np (Finite 0)) =
       Inr (Np PInf, Np PInf, Np PInf)"
    unfolding q_terms_py_def Let_def cs d1 d2 k m
    by (simp only: insertI1 not_True_eq_False if_False sum.case q1 q2 q3)
qed

text \<open>
  C9. \<open>nonlinear_rotor_analysis\<close> returns the same dictionary for all inputs: its keys are
  the nine field names and every value is the boolean False.
\<close>

theorem nonlinear_rotor_analysis_constant:
  "nonlinear_rotor_analysis rct_matrix a l d = nonlinear_rotor_analysis rct_matrix' a' l' d' \<and>
   dom (nonlinear_rotor_analysis rct_matrix a l d) =
     {''total_radius'', ''tip_loss_factor'', ''angle_of_attack'', ''angle_of_rwind'',
      ''lift_coefficient'', ''drag_coefficient'', ''axial_induction_factor'',
      ''angular_induction_factor'', ''local_power_coefficient''} \<and>
   ran (nonlinear_rotor_analysis rct_matrix a l d) = {PyBool False}"
  by (auto simp add: nonlinear_rotor_analysis_def ran_def split: if_splits)

text \<open>
  C10. At every station the tip-loss loop runs its body at most twice. The tip loss a pass
  computes is a function of the local pitch, the local tip-speed ratio, the lift-curve
  parameters, the local solidity, the blade count and the fractional radius only, whatever
  the current estimate; so a second pass computes the tip loss of the first, the difference
  is 0 and the loop is left. Started from the reset state the loop therefore ends in the
  state after one pass when that pass brings the difference to 0.01 or below, and in the
  state after two passes otherwise.
\<close>

theorem tip_loss_loop_at_most_two_passes:
  "(let pass = tip_loss_pass cfg fr local_tsr local_solidity local_pitch;
        loop = tip_loss_loop cfg fr local_tsr local_solidity local_pitch;
        init = vars\<lparr>local_tip_loss := 1, tip_loss_epsilon := 1\<rparr>
    in (\<forall>v. local_tip_loss (pass v) =
              (case q_terms local_pitch local_tsr (lift_coef_slope cfg)
                            (lift_coef_intercept cfg) local_solidity of
                 (q1, q2, q3) \<Rightarrow>
                   tip_loss (number_blades cfg) fr (local_pitch + calc_attack_angle q1 q2 q3))) \<and>
       local_tip_loss (pass (pass init)) = local_tip_loss (pass init) \<and>
       tip_loss_epsilon (pass (pass init)) = 0 \<and>
       loop (pass (pass init)) = pass (pass init) \<and>
       loop init = (if tip_loss_epsilon (pass init) > 0.01 then pass (pass init) else pass init))"
  unfolding Let_def
proof (intro conjI allI)
  fix v
  show "local_tip_loss (tip_loss_pass cfg fr local_tsr local_solidity local_pitch v) =
        (case q_terms local_pitch local_tsr (lift_coef_slope cfg)
                      (lift_coef_intercept cfg) local_solidity of
           (q1, q2, q3) \<Rightarrow>
             tip_loss (number_blades cfg) fr (local_pitch + calc_attack_angle q1 q2 q3))"
    by (simp add: tip_loss_pass_tip_loss station_tip_loss_def)
qed (simp_all add: tip_loss_pass_tip_loss tip_loss_pass_twice_epsilon tip_loss_loop_exit
      tip_loss_loop_reset[unfolded Let_def])

end
